theory Spec2Isabelle
  imports Main
begin

section \<open>Rate limiter (src/src/shared/validation.ts, class RateLimiter)\<close>

text \<open>
  The class keeps a \<open>Map<string, number[]>\<close> of request times per identifier and two
  read-only constants. \<open>Date.now()\<close> is the only input from outside; it is passed to the
  model as the argument \<open>now\<close> (milliseconds, an integer). Methods are written in
  state-passing style: they return their result together with the limiter afterwards.
\<close>

record RateLimiter =
  requests :: "string \<rightharpoonup> int list"

definition maxRequests :: nat where
  "maxRequests = 5"

definition windowMs :: int where
  "windowMs = 15 * 60 * 1000"

text \<open>\<open>new RateLimiter()\<close>: an empty map.\<close>

definition newRateLimiter :: RateLimiter where
  "newRateLimiter = \<lparr>requests = Map.empty\<rparr>"

text \<open>\<open>this.requests.get(identifier) || []\<close>\<close>

definition requestTimes :: "RateLimiter \<Rightarrow> string \<Rightarrow> int list" where
  "requestTimes rl identifier =
     (case requests rl identifier of None \<Rightarrow> [] | Some ts \<Rightarrow> ts)"

text \<open>\<open>requestTimes.filter(time => time > windowStart)\<close> with \<open>windowStart = now - windowMs\<close>\<close>

definition validRequests :: "int \<Rightarrow> RateLimiter \<Rightarrow> string \<Rightarrow> int list" where
  "validRequests now rl identifier =
     (let windowStart = now - windowMs
      in filter (\<lambda>time. time > windowStart) (requestTimes rl identifier))"

definition isRateLimited :: "int \<Rightarrow> RateLimiter \<Rightarrow> string \<Rightarrow> bool \<times> RateLimiter" where
  "isRateLimited now rl identifier =
     (let valid = validRequests now rl identifier
      in if length valid \<ge> maxRequests then (True, rl)
         else (False, rl\<lparr>requests := (requests rl)(identifier \<mapsto> valid @ [now])\<rparr>))"

definition getRemainingRequests :: "int \<Rightarrow> RateLimiter \<Rightarrow> string \<Rightarrow> int \<times> RateLimiter" where
  "getRemainingRequests now rl identifier =
     (let valid = validRequests now rl identifier
      in (max 0 (int maxRequests - int (length valid)), rl))"

text \<open>A sequence of method calls on one limiter, each with the clock value it reads.\<close>

datatype limiter_call =
    CallIsRateLimited string int
  | CallGetRemainingRequests string int

fun limiter_step :: "RateLimiter \<Rightarrow> limiter_call \<Rightarrow> RateLimiter" where
  "limiter_step rl (CallIsRateLimited identifier now) = snd (isRateLimited now rl identifier)"
| "limiter_step rl (CallGetRemainingRequests identifier now) =
     snd (getRemainingRequests now rl identifier)"

definition limiter_run :: "limiter_call list \<Rightarrow> RateLimiter \<Rightarrow> RateLimiter" where
  "limiter_run calls rl = foldl limiter_step rl calls"

section \<open>JavaScript values and strings\<close>

text \<open>
  A JavaScript string is a sequence of UTF-16 code units. The model uses \<open>string\<close>, whose
  characters are the code units 0 to 255, so it covers the strings of the Latin-1 range;
  \<open>length\<close> is JavaScript's \<open>.length\<close> on them. The request body and the values Joi
  hands back are JavaScript values of any type.
\<close>

datatype jsval =
    JUndefined
  | JNull
  | JBool bool
  | JNum int
  | JStr string
  | JArr "jsval list"
  | JObj "(string \<times> jsval) list"

datatype exn =
    TypeError string
  | Error string

text \<open>ToBoolean, as used by \<open>value.subject ? ... : undefined\<close>.\<close>

fun truthy :: "jsval \<Rightarrow> bool" where
  "truthy JUndefined = False"
| "truthy JNull = False"
| "truthy (JBool b) = b"
| "truthy (JNum n) = (n \<noteq> 0)"
| "truthy (JStr s) = (s \<noteq> [])"
| "truthy (JArr xs) = True"
| "truthy (JObj kvs) = True"

text \<open>The double quote and the apostrophe, which a string literal here cannot hold.\<close>

definition dq :: char where
  "dq = CHR 0x22"

definition sq :: char where
  "sq = CHR 0x27"

text \<open>\<open>obj[key]\<close> on an object's own properties: undefined when the key is absent.\<close>

definition getProp :: "(string \<times> jsval) list \<Rightarrow> string \<Rightarrow> jsval" where
  "getProp kvs k = (case map_of kvs k of None \<Rightarrow> JUndefined | Some v \<Rightarrow> v)"

text \<open>
  \<open>value.key\<close>: reading a property of undefined or null throws a TypeError; a primitive
  or an array has none of the keys read here.
\<close>

fun getMember :: "jsval \<Rightarrow> string \<Rightarrow> exn + jsval" where
  "getMember JUndefined k =
     Inl (TypeError (''Cannot read properties of undefined (reading '' @ [sq] @ k @ [sq] @ '')''))"
| "getMember JNull k =
     Inl (TypeError (''Cannot read properties of null (reading '' @ [sq] @ k @ [sq] @ '')''))"
| "getMember (JObj kvs) k = Inr (getProp kvs k)"
| "getMember v k = Inr JUndefined"

text \<open>
  White space as \<open>\s\<close> and \<open>String.prototype.trim\<close> see it, within the Latin-1 range: tab,
  line feed, vertical tab, form feed, carriage return, space, no-break space.
\<close>

definition isWhiteSpace :: "char \<Rightarrow> bool" where
  "isWhiteSpace c =
     (c \<in> set [CHR 0x09, CHR 0x0A, CHR 0x0B, CHR 0x0C, CHR 0x0D, CHR 0x20, CHR 0xA0])"

definition trim :: "string \<Rightarrow> string" where
  "trim s = rev (dropWhile isWhiteSpace (rev (dropWhile isWhiteSpace s)))"

definition upperAtoZ :: string where
  "upperAtoZ = ''ABCDEFGHIJKLMNOPQRSTUVWXYZ''"

definition lowerAtoZ :: string where
  "lowerAtoZ = ''abcdefghijklmnopqrstuvwxyz''"

definition isAsciiLetter :: "char \<Rightarrow> bool" where
  "isAsciiLetter c = (c \<in> set (lowerAtoZ @ upperAtoZ))"

text \<open>\<open>path.join('.')\<close>\<close>

fun join_dot :: "string list \<Rightarrow> string" where
  "join_dot [] = []"
| "join_dot [x] = x"
| "join_dot (x # y # ys) = x @ ''.'' @ join_dot (y # ys)"

section \<open>The libraries the module calls\<close>

text \<open>
  Two functions of third-party libraries decide values in this module and are not part of
  the repository: the address check behind Joi's \<open>string().email({ minDomainSegments: 2,
  tlds: { allow: true } })\<close> (with the table of registered top-level domains), and
  DOMPurify's \<open>purify.sanitize(dirty, config?)\<close>. They are parameters of the model;
  \<open>sanitize\<close> gets the configuration object when the call passes one.
\<close>

record purify_config =
  ALLOWED_TAGS :: "string list"
  ALLOWED_ATTR :: "string list"

record libraries =
  isEmail :: "string \<Rightarrow> bool"
  sanitize :: "purify_config option \<Rightarrow> jsval \<Rightarrow> string"

section \<open>Joi schema (src/src/shared/validation.ts, contactFormSchema)\<close>

text \<open>
  The part of Joi that \<open>contactFormSchema.validate(data, { abortEarly: false,
  stripUnknown: true })\<close> exercises: string schemas with the rules trim, min, max, pattern
  and email, the presence flag, \<open>allow\<close>, message overrides by error code, and an object
  schema over named keys. Conversion is on (Joi's default), so \<open>trim()\<close> trims the value
  before it is checked.
\<close>

datatype joi_code =
    AnyRequired
  | StringBase
  | StringEmpty
  | StringMin
  | StringMax
  | StringPatternBase
  | StringEmail
  | ObjectBase

datatype joi_rule =
    RuleTrim
  | RuleMin nat
  | RuleMax nat
  | RulePattern "string \<Rightarrow> bool"
  | RuleEmail

datatype joi_presence = Required | Optional

record string_schema =
  rules :: "joi_rule list"
  presence :: joi_presence
  allow :: "string list"
  messages :: "(joi_code \<times> string) list"

datatype joi_detail =
  Detail (detail_path: "string list") (detail_type: joi_code) (detail_message: string)

text \<open>
  Joi's English templates, with the label rendered (\<open>"key"\<close>, or \<open>"value"\<close> at the root).
  The templates of min, max and pattern have further placeholders, which are left as
  they are: \<open>contactFormSchema\<close> overrides these three codes wherever it uses the rule.
\<close>

definition joi_label :: "string list \<Rightarrow> string" where
  "joi_label path = dq # (if path = [] then ''value'' else join_dot path) @ [dq]"

fun joi_template :: "joi_code \<Rightarrow> string \<Rightarrow> string" where
  "joi_template AnyRequired l = l @ '' is required''"
| "joi_template StringBase l = l @ '' must be a string''"
| "joi_template StringEmpty l = l @ '' is not allowed to be empty''"
| "joi_template StringMin l = l @ '' length must be at least {{#limit}} characters long''"
| "joi_template StringMax l =
     l @ '' length must be less than or equal to {{#limit}} characters long''"
| "joi_template StringPatternBase l =
     l @ '' with value {:[.]} fails to match the required pattern: {{#regex}}''"
| "joi_template StringEmail l = l @ '' must be a valid email''"
| "joi_template ObjectBase l = l @ '' must be of type object''"

definition joi_error :: "(joi_code \<times> string) list \<Rightarrow> string list \<Rightarrow> joi_code \<Rightarrow> joi_detail" where
  "joi_error msgs path code =
     Detail path code
       (case map_of msgs code of
          Some m \<Rightarrow> m
        | None \<Rightarrow> joi_template code (joi_label path))"

fun is_trim :: "joi_rule \<Rightarrow> bool" where
  "is_trim RuleTrim = True"
| "is_trim r = False"

text \<open>One rule on a (converted) string: the code of its error, if it fails.\<close>

fun run_rule :: "libraries \<Rightarrow> joi_rule \<Rightarrow> string \<Rightarrow> joi_code option" where
  "run_rule libs RuleTrim s = None"
| "run_rule libs (RuleMin n) s = (if length s < n then Some StringMin else None)"
| "run_rule libs (RuleMax n) s = (if length s > n then Some StringMax else None)"
| "run_rule libs (RulePattern p) s = (if p s then None else Some StringPatternBase)"
| "run_rule libs RuleEmail s = (if isEmail libs s then None else Some StringEmail)"

text \<open>
  A string schema on the value of one key, in Joi's order: conversion (trim), presence,
  allowed values, the base type (a string, not empty), then every rule. A failure of
  presence or of the base type ends the key with that one error; with
  \<open>abortEarly: false\<close> every failing rule adds an error. The result is the errors and the
  converted value.
\<close>

definition validate_string ::
  "libraries \<Rightarrow> string_schema \<Rightarrow> string list \<Rightarrow> jsval \<Rightarrow> joi_detail list \<times> jsval" where
  "validate_string libs sch path v0 =
     (let v = (case v0 of
                 JStr s \<Rightarrow> if list_ex is_trim (rules sch) then JStr (trim s) else JStr s
               | _ \<Rightarrow> v0)
      in case v of
           JUndefined \<Rightarrow>
             (case presence sch of
                Required \<Rightarrow> ([joi_error (messages sch) path AnyRequired], v)
              | Optional \<Rightarrow> ([], v))
         | JStr s \<Rightarrow>
             if s \<in> set (allow sch) then ([], v)
             else if s = [] then ([joi_error (messages sch) path StringEmpty], v)
             else (map (joi_error (messages sch) path)
                     (List.map_filter (\<lambda>r. run_rule libs r s) (rules sch)), v)
         | _ \<Rightarrow> ([joi_error (messages sch) path StringBase], v))"

text \<open>
  An object schema: undefined passes (the object schema is not \<open>required()\<close>), anything
  else that is not a plain object fails with \<open>object.base\<close>, and an object has each key of
  the schema validated in the schema's order. With \<open>stripUnknown: true\<close> the value keeps
  the schema's keys only.
\<close>

definition validate_object ::
  "libraries \<Rightarrow> (string \<times> string_schema) list \<Rightarrow> jsval \<Rightarrow> joi_detail list \<times> jsval" where
  "validate_object libs keys data =
     (case data of
        JUndefined \<Rightarrow> ([], JUndefined)
      | JObj kvs \<Rightarrow>
          (let results = map (\<lambda>(k, sch). (k, validate_string libs sch [k] (getProp kvs k))) keys
           in (concat (map (\<lambda>(k, r). fst r) results),
               JObj (filter (\<lambda>(k, v). v \<noteq> JUndefined) (map (\<lambda>(k, r). (k, snd r)) results))))
      | _ \<Rightarrow> ([joi_error [] [] ObjectBase], data))"

text \<open>\<open>schema.validate\<close> returns \<open>{ error, value }\<close>; \<open>error\<close> is undefined when nothing failed.\<close>

definition joi_validate ::
  "libraries \<Rightarrow> (string \<times> string_schema) list \<Rightarrow> jsval \<Rightarrow> joi_detail list option \<times> jsval" where
  "joi_validate libs keys data =
     (case validate_object libs keys data of
        (details, v) \<Rightarrow> (if details = [] then None else Some details, v))"

text \<open>The pattern of the name: \<open>/^[a-zA-Z\s\-'\.]+$/\<close>\<close>

definition name_char :: "char \<Rightarrow> bool" where
  "name_char c =
     (isAsciiLetter c \<or> isWhiteSpace c \<or> c = CHR ''-'' \<or> c = sq \<or> c = CHR ''.'')"

definition name_pattern :: "string \<Rightarrow> bool" where
  "name_pattern s = (s \<noteq> [] \<and> list_all name_char s)"

definition contactFormSchema :: "(string \<times> string_schema) list" where
  "contactFormSchema =
     [(''name'',
        \<lparr>rules = [RuleTrim, RuleMin 1, RuleMax 100, RulePattern name_pattern],
         presence = Required,
         allow = [],
         messages =
           [(StringEmpty, ''Name is required''),
            (StringMin, ''Name must be at least 1 character long''),
            (StringMax, ''Name must be less than 100 characters''),
            (StringPatternBase, ''Name contains invalid characters'')]\<rparr>),
      (''email'',
        \<lparr>rules = [RuleEmail, RuleMax 254],
         presence = Required,
         allow = [],
         messages =
           [(StringEmail, ''Please provide a valid email address''),
            (StringEmpty, ''Email is required''),
            (StringMax, ''Email must be less than 254 characters'')]\<rparr>),
      (''subject'',
        \<lparr>rules = [RuleTrim, RuleMax 200],
         presence = Optional,
         allow = [[]],
         messages =
           [(StringMax, ''Subject must be less than 200 characters'')]\<rparr>),
      (''message'',
        \<lparr>rules = [RuleTrim, RuleMin 10, RuleMax 5000],
         presence = Required,
         allow = [],
         messages =
           [(StringEmpty, ''Message is required''),
            (StringMin, ''Message must be at least 10 characters long''),
            (StringMax, ''Message must be less than 5000 characters'')]\<rparr>)]"

section \<open>validateContactForm and sanitizeHtml (src/src/shared/validation.ts)\<close>

record ContactFormRequest =
  name :: string
  email :: string
  subject :: "string option"
  message :: string

record ValidationError =
  field :: string
  message :: string

record validation_result =
  isValid :: bool
  sanitizedData :: "ContactFormRequest option"
  errors :: "ValidationError list option"

text \<open>
  The function either returns its result object or throws: \<open>value.name\<close> is read without a
  check that \<open>value\<close> is an object. The four \<open>purify.sanitize\<close> calls pass no configuration.
\<close>

definition validateContactForm :: "libraries \<Rightarrow> jsval \<Rightarrow> exn + validation_result" where
  "validateContactForm libs data =
     (case joi_validate libs contactFormSchema data of
        (Some details, v) \<Rightarrow>
          Inr \<lparr>isValid = False,
               sanitizedData = None,
               errors = Some (map (\<lambda>detail.
                   \<lparr>field = join_dot (detail_path detail),
                    message = detail_message detail\<rparr>) details)\<rparr>
      | (None, v) \<Rightarrow>
          (case getMember v ''name'' of Inl e \<Rightarrow> Inl e | Inr v_name \<Rightarrow>
           case getMember v ''email'' of Inl e \<Rightarrow> Inl e | Inr v_email \<Rightarrow>
           case getMember v ''subject'' of Inl e \<Rightarrow> Inl e | Inr v_subject \<Rightarrow>
           case getMember v ''message'' of Inl e \<Rightarrow> Inl e | Inr v_message \<Rightarrow>
             Inr \<lparr>isValid = True,
                  sanitizedData = Some
                    \<lparr>name = sanitize libs None v_name,
                     email = sanitize libs None v_email,
                     subject = (if truthy v_subject then Some (sanitize libs None v_subject)
                                else None),
                     message = sanitize libs None v_message\<rparr>,
                  errors = None\<rparr>))"

definition sanitizeHtml :: "libraries \<Rightarrow> string \<Rightarrow> string" where
  "sanitizeHtml libs html =
     sanitize libs
       (Some \<lparr>ALLOWED_TAGS = [''p'', ''br'', ''strong'', ''em'', ''u''], ALLOWED_ATTR = []\<rparr>)
       (JStr html)"

section \<open>Spam patterns (src/src/shared/validation.ts, spamPatterns and isSpam)\<close>

text \<open>
  \<open>content.toLowerCase()\<close> within the Latin-1 range: A to Z become a to z, and the
  accented capitals U+00C0 to U+00DE (the multiplication sign U+00D7 is not one) become
  U+00E0 to U+00FE; every other character stays.
\<close>

definition upperLatin1 :: string where
  "upperLatin1 =
     [CHR 0xC0, CHR 0xC1, CHR 0xC2, CHR 0xC3, CHR 0xC4, CHR 0xC5, CHR 0xC6, CHR 0xC7,
      CHR 0xC8, CHR 0xC9, CHR 0xCA, CHR 0xCB, CHR 0xCC, CHR 0xCD, CHR 0xCE, CHR 0xCF,
      CHR 0xD0, CHR 0xD1, CHR 0xD2, CHR 0xD3, CHR 0xD4, CHR 0xD5, CHR 0xD6,
      CHR 0xD8, CHR 0xD9, CHR 0xDA, CHR 0xDB, CHR 0xDC, CHR 0xDD, CHR 0xDE]"

definition lowerLatin1 :: string where
  "lowerLatin1 =
     [CHR 0xE0, CHR 0xE1, CHR 0xE2, CHR 0xE3, CHR 0xE4, CHR 0xE5, CHR 0xE6, CHR 0xE7,
      CHR 0xE8, CHR 0xE9, CHR 0xEA, CHR 0xEB, CHR 0xEC, CHR 0xED, CHR 0xEE, CHR 0xEF,
      CHR 0xF0, CHR 0xF1, CHR 0xF2, CHR 0xF3, CHR 0xF4, CHR 0xF5, CHR 0xF6,
      CHR 0xF8, CHR 0xF9, CHR 0xFA, CHR 0xFB, CHR 0xFC, CHR 0xFD, CHR 0xFE]"

definition lower_char :: "char \<Rightarrow> char" where
  "lower_char c =
     (case map_of (zip (upperAtoZ @ upperLatin1) (lowerAtoZ @ lowerLatin1)) c of
        Some l \<Rightarrow> l
      | None \<Rightarrow> c)"

definition toLowerCase :: "string \<Rightarrow> string" where
  "toLowerCase s = map lower_char s"

text \<open>
  Each regular expression is written as the test it performs at one position of the input
  (the rest of the input from there, and for \<open>\b\<close> the character before it);
  \<open>pattern.test\<close> succeeds when the test succeeds at some position. None of the patterns
  has the \<open>g\<close> or \<open>y\<close> flag, so \<open>test\<close> keeps no state between calls.
\<close>

fun tails :: "'a list \<Rightarrow> 'a list list" where
  "tails [] = [[]]"
| "tails (x # xs) = (x # xs) # tails xs"

text \<open>
  A literal under the \<open>i\<close> flag (without \<open>u\<close>): characters are compared after
  canonicalisation, which maps a to z onto A to Z and never maps a character outside
  ASCII onto an ASCII one. The result is the input left after the literal.
\<close>

definition canonicalize :: "char \<Rightarrow> char" where
  "canonicalize c = (case map_of (zip lowerAtoZ upperAtoZ) c of Some u \<Rightarrow> u | None \<Rightarrow> c)"

fun literal_i :: "string \<Rightarrow> string \<Rightarrow> string option" where
  "literal_i [] s = Some s"
| "literal_i (p # ps) [] = None"
| "literal_i (p # ps) (c # cs) =
     (if canonicalize c = canonicalize p then literal_i ps cs else None)"

text \<open>
  \<open>\b\<close>: exactly one of the two neighbouring characters is a word character
  (\<open>[A-Za-z0-9_]\<close>); the start and the end of the input count as a non-word character.
\<close>

definition isWordChar :: "char option \<Rightarrow> bool" where
  "isWordChar co =
     (case co of
        None \<Rightarrow> False
      | Some c \<Rightarrow> c \<in> set (lowerAtoZ @ upperAtoZ @ ''0123456789_''))"

definition wordBoundary :: "char option \<Rightarrow> char option \<Rightarrow> bool" where
  "wordBoundary prev nxt = (isWordChar prev \<noteq> isWordChar nxt)"

definition first_char :: "string \<Rightarrow> char option" where
  "first_char s = (case s of [] \<Rightarrow> None | c # cs \<Rightarrow> Some c)"

definition last_char :: "string \<Rightarrow> char option" where
  "last_char s = (case rev s of [] \<Rightarrow> None | c # cs \<Rightarrow> Some c)"

text \<open>
  \<open>/\b(?:k1|k2|...)\b/i\<close> at one position: a boundary before, one of the alternatives,
  a boundary after it.
\<close>

definition keywords_here :: "string list \<Rightarrow> char option \<Rightarrow> string \<Rightarrow> bool" where
  "keywords_here kws prev s =
     (wordBoundary prev (first_char s) \<and>
      list_ex (\<lambda>k. case literal_i k s of
                     None \<Rightarrow> False
                   | Some rest \<Rightarrow>
                       wordBoundary
                         (if k = [] then prev else last_char (take (length k) s))
                         (first_char rest))
        kws)"

fun keywords_from :: "string list \<Rightarrow> char option \<Rightarrow> string \<Rightarrow> bool" where
  "keywords_from kws prev [] = keywords_here kws prev []"
| "keywords_from kws prev (c # cs) =
     (keywords_here kws prev (c # cs) \<or> keywords_from kws (Some c) cs)"

definition keywords_test :: "string list \<Rightarrow> string \<Rightarrow> bool" where
  "keywords_test kws s = keywords_from kws None s"

text \<open>
  \<open>/(?:https?:\/\/[^\s]+){3,}/i\<close>. \<open>url_scheme\<close> is \<open>https?:\/\/\<close>; \<open>nonspace_rests\<close> lists
  what can be left after \<open>[^\s]+\<close> (one or more characters that are not white space, with
  backtracking every length is tried); \<open>after_url\<close> lists what can be left after one
  round of the group. The group must match three times in a row, each round starting
  where the one before it stopped; further rounds never turn a match into a failure.
\<close>

definition url_scheme :: "string \<Rightarrow> string option" where
  "url_scheme s =
     (case literal_i ''http'' s of
        None \<Rightarrow> None
      | Some r \<Rightarrow>
          (case literal_i ''s'' r of
             None \<Rightarrow> literal_i ''://'' r
           | Some r' \<Rightarrow>
               (case literal_i ''://'' r' of
                  Some r'' \<Rightarrow> Some r''
                | None \<Rightarrow> literal_i ''://'' r)))"

fun nonspace_rests :: "string \<Rightarrow> string list" where
  "nonspace_rests [] = []"
| "nonspace_rests (c # cs) = (if isWhiteSpace c then [] else cs # nonspace_rests cs)"

definition after_url :: "string \<Rightarrow> string list" where
  "after_url s = (case url_scheme s of None \<Rightarrow> [] | Some r \<Rightarrow> nonspace_rests r)"

definition urls_here :: "string \<Rightarrow> bool" where
  "urls_here s =
     list_ex (\<lambda>r1. list_ex (\<lambda>r2. after_url r2 \<noteq> []) (after_url r1)) (after_url s)"

definition urls_test :: "string \<Rightarrow> bool" where
  "urls_test s = list_ex urls_here (tails s)"

text \<open>
  \<open>/(.)\1{10,}/\<close>: a character other than a line terminator (line feed, carriage
  return), then the same character at least ten more times.
\<close>

definition isLineTerminator :: "char \<Rightarrow> bool" where
  "isLineTerminator c = (c \<in> set [CHR 0x0A, CHR 0x0D])"

definition repeated_here :: "string \<Rightarrow> bool" where
  "repeated_here s =
     (case s of
        [] \<Rightarrow> False
      | c # cs \<Rightarrow>
          \<not> isLineTerminator c \<and> length cs \<ge> 10 \<and> list_all (\<lambda>d. d = c) (take 10 cs))"

definition repeated_test :: "string \<Rightarrow> bool" where
  "repeated_test s = list_ex repeated_here (tails s)"

text \<open>\<open>/[^\x00-\x7F]{20,}/\<close>: twenty characters in a row above U+007F.\<close>

definition nonAscii_here :: "string \<Rightarrow> bool" where
  "nonAscii_here s =
     (length s \<ge> 20 \<and> list_all (\<lambda>c. (of_char c :: int) > 127) (take 20 s))"

definition nonAscii_test :: "string \<Rightarrow> bool" where
  "nonAscii_test s = list_ex nonAscii_here (tails s)"

definition spamPatterns :: "(string \<Rightarrow> bool) list" where
  "spamPatterns =
     [keywords_test
        [''viagra'', ''cialis'', ''casino'', ''poker'', ''lottery'', ''winner'',
         ''congratulations''],
      keywords_test
        [''click here'', ''free money'', ''make money fast'', ''work from home''],
      urls_test,
      repeated_test,
      nonAscii_test]"

definition isSpam :: "string \<Rightarrow> bool" where
  "isSpam content =
     (let cleanContent = toLowerCase content
      in list_ex (\<lambda>pattern. pattern cleanContent) spamPatterns)"

section \<open>The request handler (contactFormFunction)\<close>

text \<open>
  The handler imports \<open>SECURITY_HEADERS\<close>, \<open>getCorsHeaders\<close>, \<open>getClientIp\<close>,
  \<open>generateRequestId\<close> and \<open>maskSensitiveData\<close> from \<open>shared/security.ts\<close>, which lies
  outside this development. The first three are parameters of the model, taken to be
  total; \<open>maskSensitiveData\<close> only feeds a log record. What an invocation reads from the
  outside once (the generated request id, the clock) is the \<open>invocation\<close> record.
  \<open>sendContactEmail\<close> is the mail collaborator: it resolves (\<open>None\<close>) or rejects with an
  exception. The request's \<open>method\<close> is the field \<open>req_method\<close>.
\<close>

record security =
  SECURITY_HEADERS :: "string \<rightharpoonup> string"
  getCorsHeaders :: "string option \<Rightarrow> (string \<rightharpoonup> string)"
  getClientIp :: "(string \<rightharpoonup> string) \<Rightarrow> string"

record environment =
  libs :: libraries
  sec :: security
  sendContactEmail :: "ContactFormRequest \<Rightarrow> string \<Rightarrow> exn option"

record invocation =
  requestId :: string
  dateNow :: int
  timestamp :: string

record HttpRequest =
  req_method :: string
  headers :: "string \<rightharpoonup> string"
  body :: jsval

record ContactFormResponse =
  success :: bool
  message :: string
  response_id :: "string option"

record ApiError =
  code :: string
  message :: string
  details :: "ValidationError list option"
  timestamp :: string

datatype response_body =
    BodyNull
  | BodyError ApiError
  | BodySuccess ContactFormResponse

record HttpResponse =
  status :: nat
  headers :: "string \<rightharpoonup> string"
  body :: response_body

datatype LogLevel = DEBUG | INFO | WARN | ERROR

text \<open>
  What an invocation does besides answering: log records (level and message; the data
  object is left out) and calls of the mail collaborator, in order.
\<close>

datatype event =
    Log LogLevel string
  | MailSend ContactFormRequest string

fun is_MailSend :: "event \<Rightarrow> bool" where
  "is_MailSend (MailSend formData rid) = True"
| "is_MailSend (Log l m) = False"

text \<open>
  The text handed to the spam check: the name, the subject (the empty string when there
  is none) and the message, with one space between them.
\<close>

definition messageContent :: "ContactFormRequest \<Rightarrow> string" where
  "messageContent formData =
     name formData @ '' ''
       @ (case subject formData of None \<Rightarrow> [] | Some s \<Rightarrow> s) @ '' ''
       @ ContactFormRequest.message formData"

text \<open>
  The body of the \<open>try\<close> block: it ends with a response, or with the exception that left
  it. The limiter is the module-level \<open>rateLimiter\<close>; what \<open>isRateLimited\<close> recorded stays
  recorded when a later step throws. On acceptance the handler also reads
  \<open>getRemainingRequests\<close> for its log record, which leaves the limiter as it is.
\<close>

definition try_block ::
  "environment \<Rightarrow> invocation \<Rightarrow> RateLimiter \<Rightarrow> HttpRequest
     \<Rightarrow> (exn + HttpResponse) \<times> RateLimiter \<times> event list" where
  "try_block env ctx rl req =
     (let clientIp = getClientIp (sec env) (HttpRequest.headers req);
          origin = HttpRequest.headers req ''origin''
      in
      if req_method req = ''OPTIONS'' then
        (Inr \<lparr>status = 200,
              headers = SECURITY_HEADERS (sec env) ++ getCorsHeaders (sec env) origin,
              body = BodyNull\<rparr>, rl, [])
      else if req_method req \<noteq> ''POST'' then
        (Inr \<lparr>status = 405,
              headers = SECURITY_HEADERS (sec env) ++ getCorsHeaders (sec env) origin
                          ++ [''Content-Type'' \<mapsto> ''application/json''],
              body = BodyError
                \<lparr>code = ''METHOD_NOT_ALLOWED'',
                 message = ''Only POST requests are allowed'',
                 details = None,
                 timestamp = invocation.timestamp ctx\<rparr>\<rparr>, rl, [])
      else
        (case isRateLimited (dateNow ctx) rl clientIp of
           (True, rl') \<Rightarrow>
             (Inr \<lparr>status = 429,
                   headers = SECURITY_HEADERS (sec env) ++ getCorsHeaders (sec env) origin
                               ++ [''Content-Type'' \<mapsto> ''application/json'',
                                   ''Retry-After'' \<mapsto> ''900''],
                   body = BodyError
                     \<lparr>code = ''RATE_LIMIT_EXCEEDED'',
                      message = ''Too many requests. Please try again later.'',
                      details = None,
                      timestamp = invocation.timestamp ctx\<rparr>\<rparr>,
              rl', [Log WARN ''Rate limit exceeded''])
         | (False, rl') \<Rightarrow>
             (case validateContactForm (libs env) (HttpRequest.body req) of
                Inl e \<Rightarrow> (Inl e, rl', [])
              | Inr validationResult \<Rightarrow>
                  (case (isValid validationResult, sanitizedData validationResult) of
                     (True, Some formData) \<Rightarrow>
                       (if isSpam (messageContent formData) then
                          (Inr \<lparr>status = 200,
                                headers = SECURITY_HEADERS (sec env)
                                            ++ getCorsHeaders (sec env) origin
                                            ++ [''Content-Type'' \<mapsto> ''application/json''],
                                body = BodySuccess
                                  \<lparr>success = True,
                                   message =
                                     ''Thank you for your message. We will get back to you soon.'',
                                   response_id = Some (requestId ctx)\<rparr>\<rparr>,
                           rl', [Log WARN ''Spam detected''])
                        else
                          (case sendContactEmail env formData (requestId ctx) of
                             Some e \<Rightarrow> (Inl e, rl', [MailSend formData (requestId ctx)])
                           | None \<Rightarrow>
                               (Inr \<lparr>status = 200,
                                     headers = SECURITY_HEADERS (sec env)
                                                 ++ getCorsHeaders (sec env) origin
                                                 ++ [''Content-Type'' \<mapsto> ''application/json''],
                                     body = BodySuccess
                                       \<lparr>success = True,
                                        message =
                                          ''Thank you for your message. We will get back to you soon.'',
                                        response_id = Some (requestId ctx)\<rparr>\<rparr>,
                                rl',
                                [MailSend formData (requestId ctx),
                                 Log INFO ''Contact form processed successfully''])))
                   | _ \<Rightarrow>
                       (Inr \<lparr>status = 400,
                             headers = SECURITY_HEADERS (sec env)
                                         ++ getCorsHeaders (sec env) origin
                                         ++ [''Content-Type'' \<mapsto> ''application/json''],
                             body = BodyError
                               \<lparr>code = ''VALIDATION_ERROR'',
                                message = ''Invalid input data'',
                                details = errors validationResult,
                                timestamp = invocation.timestamp ctx\<rparr>\<rparr>,
                        rl', [Log WARN ''Validation failed''])))))"

text \<open>
  The handler: the log record written before the \<open>try\<close>, the block, and the \<open>catch\<close>
  clause, which answers 500 whatever the exception was.
\<close>

definition contactFormFunction ::
  "environment \<Rightarrow> invocation \<Rightarrow> RateLimiter \<Rightarrow> HttpRequest
     \<Rightarrow> HttpResponse \<times> RateLimiter \<times> event list" where
  "contactFormFunction env ctx rl req =
     (case try_block env ctx rl req of
        (Inr res, rl', evs) \<Rightarrow> (res, rl', Log INFO ''Contact form request received'' # evs)
      | (Inl error, rl', evs) \<Rightarrow>
          (\<lparr>status = 500,
            headers = SECURITY_HEADERS (sec env)
                        ++ getCorsHeaders (sec env) (HttpRequest.headers req ''origin'')
                        ++ [''Content-Type'' \<mapsto> ''application/json''],
            body = BodyError
              \<lparr>code = ''INTERNAL_SERVER_ERROR'',
               message = ''An unexpected error occurred. Please try again later.'',
               details = None,
               timestamp = invocation.timestamp ctx\<rparr>\<rparr>,
           rl',
           Log INFO ''Contact form request received'' # evs
             @ [Log ERROR ''Unexpected error in contact form function'']))"

text \<open>Requests handled one after the other by one process, sharing the limiter.\<close>

fun serve ::
  "environment \<Rightarrow> RateLimiter \<Rightarrow> (invocation \<times> HttpRequest) list \<Rightarrow> HttpResponse list" where
  "serve env rl [] = []"
| "serve env rl ((ctx, req) # rest) =
     (case contactFormFunction env ctx rl req of
        (res, rl', evs) \<Rightarrow> res # serve env rl' rest)"

section \<open>Successive calls and sample collaborators\<close>

text \<open>\<open>isRateLimited\<close> called once per clock value, in order, on the same limiter.\<close>

fun isRateLimited_seq :: "RateLimiter \<Rightarrow> string \<Rightarrow> int list \<Rightarrow> bool list" where
  "isRateLimited_seq rl identifier [] = []"
| "isRateLimited_seq rl identifier (t # ts) =
     (case isRateLimited t rl identifier of
        (limited, rl') \<Rightarrow> limited # isRateLimited_seq rl' identifier ts)"

text \<open>
  Concrete collaborators for evaluating the model. \<open>sample_sanitize\<close> answers as DOMPurify
  does on the inputs it is applied to in this theory: text without markup comes back
  unchanged, a script element is removed with its content, and an \<open>img\<close> element keeps its
  \<open>src\<close> and loses its \<open>onerror\<close> handler. \<open>sample_libs\<close> accepts one address.
\<close>

definition sample_sanitize :: "purify_config option \<Rightarrow> jsval \<Rightarrow> string" where
  "sample_sanitize cfg dirty =
     (case dirty of
        JStr s \<Rightarrow>
          (if s = ''<script>alert(1)</script>'' then []
           else if s = ''Hello <img src=x onerror=alert(1)> there''
           then ''Hello <img src='' @ [dq] @ ''x'' @ [dq] @ ''> there''
           else s)
      | _ \<Rightarrow> [])"

definition sample_libs :: libraries where
  "sample_libs = \<lparr>isEmail = (\<lambda>s. s = ''john@example.com''), sanitize = sample_sanitize\<rparr>"

definition sample_security :: security where
  "sample_security =
     \<lparr>SECURITY_HEADERS = [''X-Content-Type-Options'' \<mapsto> ''nosniff''],
      getCorsHeaders = (\<lambda>origin.
         if origin = Some ''https://yourdomain.com''
         then [''Access-Control-Allow-Origin'' \<mapsto> ''https://yourdomain.com'']
         else Map.empty),
      getClientIp = (\<lambda>hs. case hs ''x-forwarded-for'' of None \<Rightarrow> ''unknown'' | Some ip \<Rightarrow> ip)\<rparr>"

definition sample_env :: environment where
  "sample_env = \<lparr>libs = sample_libs, sec = sample_security, sendContactEmail = (\<lambda>formData rid. None)\<rparr>"

definition sample_request :: "jsval \<Rightarrow> HttpRequest" where
  "sample_request b =
     \<lparr>req_method = ''POST'',
      headers = [''origin'' \<mapsto> ''https://yourdomain.com'', ''x-forwarded-for'' \<mapsto> ''203.0.113.7''],
      body = b\<rparr>"

definition sample_invocation :: "int \<Rightarrow> invocation" where
  "sample_invocation t = \<lparr>requestId = ''req_1'', dateNow = t, timestamp = ''2024-01-15T10:30:00.000Z''\<rparr>"

definition sample_body :: jsval where
  "sample_body =
     JObj [(''name'', JStr ''John Doe''), (''email'', JStr ''john@example.com''),
           (''subject'', JStr ''Test Subject''), (''message'', JStr ''This is a test message.'')]"

text \<open>An environment whose mail collaborator rejects, as \<open>sendContactEmail\<close> does on failure.\<close>

definition failing_mail_env :: environment where
  "failing_mail_env =
     \<lparr>libs = sample_libs, sec = sample_security,
      sendContactEmail = (\<lambda>formData rid. Some (Error ''Failed to send email''))\<rparr>"

text \<open>Request bodies: a spam message, a message with an image element, a script element.\<close>

definition spam_body :: jsval where
  "spam_body =
     JObj [(''name'', JStr ''John Doe''), (''email'', JStr ''john@example.com''),
           (''subject'', JStr ''Test Subject''),
           (''message'', JStr ''Click here for free money and casino winnings!'')]"

definition img_body :: jsval where
  "img_body =
     JObj [(''name'', JStr ''John Doe''), (''email'', JStr ''john@example.com''),
           (''message'', JStr ''Hello <img src=x onerror=alert(1)> there'')]"

definition script_body :: jsval where
  "script_body =
     JObj [(''name'', JStr ''John Doe''), (''email'', JStr ''john@example.com''),
           (''message'', JStr ''<script>alert(1)</script>'')]"

definition script_name_body :: jsval where
  "script_name_body =
     JObj [(''name'', JStr ''<script>alert(1)</script>John''), (''email'', JStr ''john@example.com''),
           (''message'', JStr ''This is a test message.'')]"

text \<open>A body whose spam phrase is spread over the name and the subject.\<close>

definition split_spam_body :: jsval where
  "split_spam_body =
     JObj [(''name'', JStr ''Click''), (''email'', JStr ''john@example.com''),
           (''subject'', JStr ''here''), (''message'', JStr ''This is a test message.'')]"

section \<open>The constraints of the specification on a submission\<close>

text \<open>
  What the specification requires of the fields of a submission, in its words: the name
  trimmed, of length 1 to 100 and of the restricted character set; a valid email of
  length at most 254; a subject of length at most 200; the message trimmed and of length
  10 to 5000.
\<close>

definition schema_constraints :: "libraries \<Rightarrow> ContactFormRequest \<Rightarrow> bool" where
  "schema_constraints l d =
     (trim (name d) = name d \<and> 1 \<le> length (name d) \<and> length (name d) \<le> 100
        \<and> name_pattern (name d)
      \<and> isEmail l (email d) \<and> length (email d) \<le> 254
      \<and> (case subject d of None \<Rightarrow> True | Some s \<Rightarrow> length s \<le> 200)
      \<and> trim (ContactFormRequest.message d) = ContactFormRequest.message d
        \<and> 10 \<le> length (ContactFormRequest.message d)
        \<and> length (ContactFormRequest.message d) \<le> 5000)"

section \<open>Properties of the rate limiter\<close>

lemma requestTimes_update:
  "requestTimes (rl\<lparr>requests := (requests rl)(i \<mapsto> ts)\<rparr>) j =
     (if j = i then ts else requestTimes rl j)"
  by (simp add: requestTimes_def)

lemma stored_le_step:
  assumes "\<And>j. length (requestTimes rl j) \<le> maxRequests"
  shows "length (requestTimes (limiter_step rl c) j) \<le> maxRequests"
proof (cases c)
  case (CallIsRateLimited i now)
  show ?thesis
  proof (cases "length (validRequests now rl i) \<ge> maxRequests")
    case True
    then show ?thesis
      using assms CallIsRateLimited by (simp add: isRateLimited_def Let_def)
  next
    case False
    then have "length (validRequests now rl i @ [now]) \<le> maxRequests" by simp
    with False assms show ?thesis
      using CallIsRateLimited
      by (simp add: isRateLimited_def Let_def requestTimes_update del: length_append)
  qed
next
  case (CallGetRemainingRequests i now)
  then show ?thesis using assms by (simp add: getRemainingRequests_def Let_def)
qed

lemma stored_le_run:
  assumes "\<And>j. length (requestTimes rl j) \<le> maxRequests"
  shows "length (requestTimes (limiter_run calls rl) j) \<le> maxRequests"
  using assms unfolding limiter_run_def
proof (induction calls arbitrary: rl j)
  case Nil
  then show ?case by simp
next
  case (Cons c calls)
  have "\<And>k. length (requestTimes (limiter_step rl c) k) \<le> maxRequests"
    using Cons.prems by (rule stored_le_step)
  then show ?case using Cons.IH by simp
qed

lemma stored_le_new: "length (requestTimes newRateLimiter j) \<le> maxRequests"
  by (simp add: requestTimes_def newRateLimiter_def)


text \<open>
  C10. Starting from a new limiter, after any sequence of \<open>isRateLimited\<close> and
  \<open>getRemainingRequests\<close> calls (with any clock values), every identifier's stored list,
  restricted to the trailing window of any instant, has at most 5 entries. A call of
  \<open>isRateLimited\<close> that answers true returns the limiter unchanged (the pruned list is not
  written back); one that answers false had a pruned count strictly below the cap and
  stores the pruned list with the current time appended.
\<close>

theorem limiter_window_invariant:
  "length (filter (\<lambda>t. t > at - windowMs)
       (requestTimes (limiter_run calls newRateLimiter) identifier)) \<le> 5
   \<and> (fst (isRateLimited now rl identifier) \<longrightarrow> snd (isRateLimited now rl identifier) = rl)
   \<and> (\<not> fst (isRateLimited now rl identifier) \<longrightarrow>
        length (validRequests now rl identifier) < 5
        \<and> requests (snd (isRateLimited now rl identifier)) identifier
            = Some (validRequests now rl identifier @ [now]))"
proof -
  have "length (requestTimes (limiter_run calls newRateLimiter) identifier) \<le> maxRequests"
    by (rule stored_le_run) (rule stored_le_new)
  moreover have "length (filter (\<lambda>t. t > at - windowMs)
       (requestTimes (limiter_run calls newRateLimiter) identifier))
     \<le> length (requestTimes (limiter_run calls newRateLimiter) identifier)"
    by (rule length_filter_le)
  ultimately have ctx: "length (filter (\<lambda>t. t > at - windowMs)
       (requestTimes (limiter_run calls newRateLimiter) identifier)) \<le> 5"
    unfolding maxRequests_def by linarith
  show ?thesis
    using ctx by (simp add: isRateLimited_def Let_def maxRequests_def)
qed

theorem limiter_window_invariant_witness:
  "length (filter (\<lambda>t. t > 1000000 - windowMs)
       (requestTimes (limiter_run
          [CallIsRateLimited ''a'' 1, CallIsRateLimited ''a'' 2, CallIsRateLimited ''a'' 3,
           CallGetRemainingRequests ''a'' 4, CallIsRateLimited ''a'' 5,
           CallIsRateLimited ''a'' 6, CallIsRateLimited ''a'' 7, CallIsRateLimited ''a'' 900002,
           CallIsRateLimited ''a'' 900003] newRateLimiter) ''a'')) \<le> 5
   \<and> fst (isRateLimited 7 \<lparr>requests = [''a'' \<mapsto> [1, 2, 3, 5, 6]]\<rparr> ''a'')
   \<and> snd (isRateLimited 7 \<lparr>requests = [''a'' \<mapsto> [1, 2, 3, 5, 6]]\<rparr> ''a'')
       = \<lparr>requests = [''a'' \<mapsto> [1, 2, 3, 5, 6]]\<rparr>
   \<and> \<not> fst (isRateLimited 900002 \<lparr>requests = [''a'' \<mapsto> [1, 2, 3, 5, 6]]\<rparr> ''a'')
   \<and> requests (snd (isRateLimited 900002 \<lparr>requests = [''a'' \<mapsto> [1, 2, 3, 5, 6]]\<rparr> ''a'')) ''a''
       = Some [3, 5, 6, 900002]"
  using limiter_window_invariant
    [of 1000000
        "[CallIsRateLimited ''a'' 1, CallIsRateLimited ''a'' 2, CallIsRateLimited ''a'' 3,
           CallGetRemainingRequests ''a'' 4, CallIsRateLimited ''a'' 5,
           CallIsRateLimited ''a'' 6, CallIsRateLimited ''a'' 7, CallIsRateLimited ''a'' 900002,
           CallIsRateLimited ''a'' 900003]"
        "''a''" 7 "\<lparr>requests = [''a'' \<mapsto> [1, 2, 3, 5, 6]]\<rparr>"]
    limiter_window_invariant
    [of 0 "[]" "''a''" 900002 "\<lparr>requests = [''a'' \<mapsto> [1, 2, 3, 5, 6]]\<rparr>"]
  by (simp add: isRateLimited_def validRequests_def requestTimes_def windowMs_def
      maxRequests_def Let_def)

section \<open>The outcomes of one invocation\<close>

text \<open>
  Every run of the \<open>try\<close> block is one of eight: the preflight answer, a method other
  than POST, the rate limit, an exception out of \<open>validateContactForm\<close>, a validation
  failure, spam, an exception out of the mail collaborator, or acceptance.
\<close>

lemma try_block_cases
  [case_names Options NotPost Limited ValidateThrows Invalid Spam MailThrows Accepted]:
  fixes env ctx rl req
  defines "ip \<equiv> getClientIp (sec env) (HttpRequest.headers req)"
    and "hs \<equiv> SECURITY_HEADERS (sec env)
                 ++ getCorsHeaders (sec env) (HttpRequest.headers req ''origin'')"
  obtains
    "req_method req = ''OPTIONS''"
    "try_block env ctx rl req = (Inr \<lparr>status = 200, headers = hs, body = BodyNull\<rparr>, rl, [])"
  | "req_method req \<noteq> ''OPTIONS''" "req_method req \<noteq> ''POST''"
    "try_block env ctx rl req =
       (Inr \<lparr>status = 405,
             headers = hs ++ [''Content-Type'' \<mapsto> ''application/json''],
             body = BodyError
               \<lparr>code = ''METHOD_NOT_ALLOWED'',
                message = ''Only POST requests are allowed'',
                details = None,
                timestamp = invocation.timestamp ctx\<rparr>\<rparr>, rl, [])"
  | rl' where "req_method req = ''POST''"
    "isRateLimited (dateNow ctx) rl ip = (True, rl')"
    "try_block env ctx rl req =
       (Inr \<lparr>status = 429,
             headers = hs ++ [''Content-Type'' \<mapsto> ''application/json'',
                              ''Retry-After'' \<mapsto> ''900''],
             body = BodyError
               \<lparr>code = ''RATE_LIMIT_EXCEEDED'',
                message = ''Too many requests. Please try again later.'',
                details = None,
                timestamp = invocation.timestamp ctx\<rparr>\<rparr>,
        rl', [Log WARN ''Rate limit exceeded''])"
  | rl' e where "req_method req = ''POST''"
    "isRateLimited (dateNow ctx) rl ip = (False, rl')"
    "validateContactForm (libs env) (HttpRequest.body req) = Inl e"
    "try_block env ctx rl req = (Inl e, rl', [])"
  | rl' vr where "req_method req = ''POST''"
    "isRateLimited (dateNow ctx) rl ip = (False, rl')"
    "validateContactForm (libs env) (HttpRequest.body req) = Inr vr"
    "\<not> isValid vr \<or> sanitizedData vr = None"
    "try_block env ctx rl req =
       (Inr \<lparr>status = 400,
             headers = hs ++ [''Content-Type'' \<mapsto> ''application/json''],
             body = BodyError
               \<lparr>code = ''VALIDATION_ERROR'',
                message = ''Invalid input data'',
                details = errors vr,
                timestamp = invocation.timestamp ctx\<rparr>\<rparr>,
        rl', [Log WARN ''Validation failed''])"
  | rl' vr formData where "req_method req = ''POST''"
    "isRateLimited (dateNow ctx) rl ip = (False, rl')"
    "validateContactForm (libs env) (HttpRequest.body req) = Inr vr"
    "isValid vr" "sanitizedData vr = Some formData"
    "isSpam (messageContent formData)"
    "try_block env ctx rl req =
       (Inr \<lparr>status = 200,
             headers = hs ++ [''Content-Type'' \<mapsto> ''application/json''],
             body = BodySuccess
               \<lparr>success = True,
                message = ''Thank you for your message. We will get back to you soon.'',
                response_id = Some (requestId ctx)\<rparr>\<rparr>,
        rl', [Log WARN ''Spam detected''])"
  | rl' vr formData e where "req_method req = ''POST''"
    "isRateLimited (dateNow ctx) rl ip = (False, rl')"
    "validateContactForm (libs env) (HttpRequest.body req) = Inr vr"
    "isValid vr" "sanitizedData vr = Some formData"
    "\<not> isSpam (messageContent formData)"
    "sendContactEmail env formData (requestId ctx) = Some e"
    "try_block env ctx rl req = (Inl e, rl', [MailSend formData (requestId ctx)])"
  | rl' vr formData where "req_method req = ''POST''"
    "isRateLimited (dateNow ctx) rl ip = (False, rl')"
    "validateContactForm (libs env) (HttpRequest.body req) = Inr vr"
    "isValid vr" "sanitizedData vr = Some formData"
    "\<not> isSpam (messageContent formData)"
    "sendContactEmail env formData (requestId ctx) = None"
    "try_block env ctx rl req =
       (Inr \<lparr>status = 200,
             headers = hs ++ [''Content-Type'' \<mapsto> ''application/json''],
             body = BodySuccess
               \<lparr>success = True,
                message = ''Thank you for your message. We will get back to you soon.'',
                response_id = Some (requestId ctx)\<rparr>\<rparr>,
        rl',
        [MailSend formData (requestId ctx), Log INFO ''Contact form processed successfully''])"
proof (cases "req_method req = ''OPTIONS''")
  case True
  then show ?thesis using that(1) by (simp add: try_block_def hs_def)
next
  case notOptions: False
  show ?thesis
  proof (cases "req_method req = ''POST''")
    case False
    then show ?thesis using notOptions that(2) by (simp add: try_block_def hs_def)
  next
    case post: True
    obtain lim rl' where l: "isRateLimited (dateNow ctx) rl ip = (lim, rl')"
      by (cases "isRateLimited (dateNow ctx) rl ip")
    show ?thesis
    proof (cases lim)
      case True
      then show ?thesis using post l that(3)[of rl']
        by (simp add: try_block_def hs_def ip_def)
    next
      case notLimited: False
      show ?thesis
      proof (cases "validateContactForm (libs env) (HttpRequest.body req)")
        case (Inl e)
        then show ?thesis using post l notLimited that(4)[of rl' e]
          by (simp add: try_block_def ip_def)
      next
        case (Inr vr)
        show ?thesis
        proof (cases "isValid vr")
          case False
          then show ?thesis using post l notLimited Inr that(5)[of rl' vr]
            by (simp add: try_block_def hs_def ip_def)
        next
          case valid: True
          show ?thesis
          proof (cases "sanitizedData vr")
            case None
            then show ?thesis using post l notLimited Inr valid that(5)[of rl' vr]
              by (simp add: try_block_def hs_def ip_def)
          next
            case (Some formData)
            show ?thesis
            proof (cases "isSpam (messageContent formData)")
              case True
              then show ?thesis using post l notLimited Inr valid Some that(6)[of rl' vr formData]
                by (simp add: try_block_def hs_def ip_def)
            next
              case notSpam: False
              show ?thesis
              proof (cases "sendContactEmail env formData (requestId ctx)")
                case None
                then show ?thesis
                  using post l notLimited Inr valid Some notSpam that(8)[of rl' vr formData]
                  by (simp add: try_block_def hs_def ip_def)
              next
                case (Some e)
                then show ?thesis
                  using post l notLimited Inr valid \<open>sanitizedData vr = Some formData\<close> notSpam
                    that(7)[of rl' vr formData e]
                  by (simp add: try_block_def hs_def ip_def)
              qed
            qed
          qed
        qed
      qed
    qed
  qed
qed

section \<open>Properties of the handler and the limiter together\<close>

lemma handler_429_iff:
  "req_method req = ''POST'' \<Longrightarrow>
   (status (fst (contactFormFunction env ctx rl req)) = 429)
     = fst (isRateLimited (dateNow ctx) rl (getClientIp (sec env) (HttpRequest.headers req)))"
  by (cases rule: try_block_cases[of req env ctx rl])
     (simp_all add: contactFormFunction_def)

lemma handler_limiter:
  "req_method req = ''POST'' \<Longrightarrow>
   fst (snd (contactFormFunction env ctx rl req))
     = snd (isRateLimited (dateNow ctx) rl (getClientIp (sec env) (HttpRequest.headers req)))"
  by (cases rule: try_block_cases[of req env ctx rl])
     (simp_all add: contactFormFunction_def)

lemma handler_mail_count:
  "length (filter is_MailSend (snd (snd (contactFormFunction env ctx rl req)))) \<le> 1"
  by (cases rule: try_block_cases[of req env ctx rl])
     (simp_all add: contactFormFunction_def)


lemma valid_all_in_window:
  assumes "\<forall>x\<in>set (requestTimes rl i). t - x < windowMs"
  shows "validRequests t rl i = requestTimes rl i"
  using assms by (auto simp: validRequests_def Let_def filter_id_conv)

lemma seq_general:
  assumes "\<forall>a\<in>set (requestTimes rl i @ ts). \<forall>b\<in>set (requestTimes rl i @ ts). a - b < windowMs"
  shows "isRateLimited_seq rl i ts
           = map (\<lambda>k. maxRequests \<le> length (requestTimes rl i) + k) [0..<length ts]"
  using assms
proof (induction ts arbitrary: rl)
  case Nil
  then show ?case by simp
next
  case (Cons t ts)
  have v: "validRequests t rl i = requestTimes rl i"
    using Cons.prems by (intro valid_all_in_window) auto
  show ?case
  proof (cases "maxRequests \<le> length (requestTimes rl i)")
    case True
    then have step: "isRateLimited t rl i = (True, rl)"
      by (simp add: isRateLimited_def v)
    have "isRateLimited_seq rl i ts
           = map (\<lambda>k. maxRequests \<le> length (requestTimes rl i) + k) [0..<length ts]"
      using Cons.prems by (intro Cons.IH) auto
    then show ?thesis using True step by (simp add: map_upt_Suc del: upt_Suc)
  next
    case False
    let ?rl' = "rl\<lparr>requests := (requests rl)(i \<mapsto> requestTimes rl i @ [t])\<rparr>"
    have step: "isRateLimited t rl i = (False, ?rl')"
      using False by (simp add: isRateLimited_def v)
    have rt: "requestTimes ?rl' i = requestTimes rl i @ [t]"
      by (simp add: requestTimes_update)
    have "\<forall>a\<in>set (requestTimes ?rl' i @ ts). \<forall>b\<in>set (requestTimes ?rl' i @ ts).
            a - b < windowMs"
      using Cons.prems unfolding rt by simp
    then have "isRateLimited_seq ?rl' i ts
           = map (\<lambda>k. maxRequests \<le> length (requestTimes ?rl' i) + k) [0..<length ts]"
      by (rule Cons.IH)
    then show ?thesis using False step rt by (simp add: map_upt_Suc del: upt_Suc)
  qed
qed

lemma serve_429_seq:
  assumes "\<forall>a\<in>set reqs. req_method (snd a) = ''POST''
             \<and> getClientIp (sec env) (HttpRequest.headers (snd a)) = i"
  shows "map (\<lambda>r. status r = 429) (serve env rl reqs)
           = isRateLimited_seq rl i (map (\<lambda>a. dateNow (fst a)) reqs)"
  using assms
proof (induction reqs arbitrary: rl)
  case Nil
  then show ?case by simp
next
  case (Cons a reqs)
  obtain ctx req where a: "a = (ctx, req)" by (cases a)
  have m: "req_method req = ''POST''" and ip: "getClientIp (sec env) (HttpRequest.headers req) = i"
    using Cons.prems a by auto
  obtain res rl' evs where h: "contactFormFunction env ctx rl req = (res, rl', evs)"
    by (cases "contactFormFunction env ctx rl req")
  have s: "(status res = 429) = fst (isRateLimited (dateNow ctx) rl i)"
    using handler_429_iff[OF m, of env ctx rl] h ip by simp
  have l: "rl' = snd (isRateLimited (dateNow ctx) rl i)"
    using handler_limiter[OF m, of env ctx rl] h ip by simp
  have "map (\<lambda>r. status r = 429) (serve env rl' reqs)
           = isRateLimited_seq rl' i (map (\<lambda>a. dateNow (fst a)) reqs)"
    using Cons.prems by (intro Cons.IH) auto
  then show ?case using a h s l by (simp split: prod.splits)
qed

lemma six: "map (\<lambda>k. maxRequests \<le> 0 + k) [0..<6] = [False, False, False, False, False, True]"
  by (simp add: maxRequests_def upt_rec)


text \<open>
  C3. \<open>isRateLimited\<close> drops the identifier's timestamps that are not later than
  \<open>now - 900000\<close> (15 minutes); if at least 5 remain it answers true and records nothing,
  otherwise it stores the remaining ones with \<open>now\<close> appended and answers false. Hence six
  calls for an identifier with no recorded timestamps, at clock values less than 15
  minutes apart, answer false five times and then true; and of six POST requests of one
  client handled under the same conditions, exactly the sixth is answered with 429.
\<close>

theorem isRateLimited_six_in_window:
  "isRateLimited now rl identifier =
     (if 5 \<le> length (filter (\<lambda>t. t > now - 900000) (requestTimes rl identifier))
      then (True, rl)
      else (False, rl\<lparr>requests := (requests rl)(identifier \<mapsto>
              filter (\<lambda>t. t > now - 900000) (requestTimes rl identifier) @ [now])\<rparr>))
   \<and> (length ts = 6 \<and> (\<forall>a\<in>set ts. \<forall>b\<in>set ts. a - b < 900000)
        \<and> requestTimes rl identifier = []
      \<longrightarrow> isRateLimited_seq rl identifier ts = [False, False, False, False, False, True])
   \<and> (length reqs = 6
        \<and> (\<forall>a\<in>set reqs. req_method (snd a) = ''POST''
              \<and> getClientIp (sec env) (HttpRequest.headers (snd a)) = identifier)
        \<and> (\<forall>a\<in>set reqs. \<forall>b\<in>set reqs. dateNow (fst a) - dateNow (fst b) < 900000)
        \<and> requestTimes rl identifier = []
      \<longrightarrow> map (\<lambda>r. status r = 429) (serve env rl reqs)
            = [False, False, False, False, False, True])"
proof (intro conjI impI)
  show "isRateLimited now rl identifier =
     (if 5 \<le> length (filter (\<lambda>t. t > now - 900000) (requestTimes rl identifier))
      then (True, rl)
      else (False, rl\<lparr>requests := (requests rl)(identifier \<mapsto>
              filter (\<lambda>t. t > now - 900000) (requestTimes rl identifier) @ [now])\<rparr>))"
    by (simp add: isRateLimited_def validRequests_def maxRequests_def windowMs_def Let_def)
next
  assume h: "length ts = 6 \<and> (\<forall>a\<in>set ts. \<forall>b\<in>set ts. a - b < 900000)
        \<and> requestTimes rl identifier = []"
  then have "\<forall>a\<in>set (requestTimes rl identifier @ ts).
               \<forall>b\<in>set (requestTimes rl identifier @ ts). a - b < windowMs"
    by (simp add: windowMs_def)
  then have "isRateLimited_seq rl identifier ts
      = map (\<lambda>k. maxRequests \<le> length (requestTimes rl identifier) + k) [0..<length ts]"
    by (rule seq_general)
  then show "isRateLimited_seq rl identifier ts = [False, False, False, False, False, True]"
    using h six by simp
next
  assume h: "length reqs = 6
        \<and> (\<forall>a\<in>set reqs. req_method (snd a) = ''POST''
              \<and> getClientIp (sec env) (HttpRequest.headers (snd a)) = identifier)
        \<and> (\<forall>a\<in>set reqs. \<forall>b\<in>set reqs. dateNow (fst a) - dateNow (fst b) < 900000)
        \<and> requestTimes rl identifier = []"
  let ?ts = "map (\<lambda>a. dateNow (fst a)) reqs"
  have s: "map (\<lambda>r. status r = 429) (serve env rl reqs) = isRateLimited_seq rl identifier ?ts"
    using h by (intro serve_429_seq) simp
  have "\<forall>a\<in>set (requestTimes rl identifier @ ?ts).
               \<forall>b\<in>set (requestTimes rl identifier @ ?ts). a - b < windowMs"
    using h by (simp add: windowMs_def)
  then have "isRateLimited_seq rl identifier ?ts
      = map (\<lambda>k. maxRequests \<le> length (requestTimes rl identifier) + k) [0..<length ?ts]"
    by (rule seq_general)
  then show "map (\<lambda>r. status r = 429) (serve env rl reqs)
            = [False, False, False, False, False, True]"
    using h s six by simp
qed

theorem isRateLimited_six_in_window_witness:
  "isRateLimited 900001 \<lparr>requests = [''a'' \<mapsto> [1, 2, 3, 4, 5]]\<rparr> ''a''
     = (False, \<lparr>requests = [''a'' \<mapsto> [2, 3, 4, 5, 900001]]\<rparr>)
   \<and> isRateLimited_seq newRateLimiter ''a'' [10, 20, 30, 40, 50, 899999]
       = [False, False, False, False, False, True]
   \<and> map (\<lambda>r. status r = 429)
        (serve sample_env newRateLimiter
          [(sample_invocation 10, sample_request JNull),
           (sample_invocation 20, sample_request JNull),
           (sample_invocation 30, sample_request JNull),
           (sample_invocation 40, sample_request JNull),
           (sample_invocation 50, sample_request JNull),
           (sample_invocation 899999, sample_request JNull)])
       = [False, False, False, False, False, True]"
  using isRateLimited_six_in_window
    [of 900001 "\<lparr>requests = [''a'' \<mapsto> [1, 2, 3, 4, 5]]\<rparr>" "''a''" "[]" "[]" sample_env]
    isRateLimited_six_in_window
    [of 0 newRateLimiter "''a''" "[10, 20, 30, 40, 50, 899999]" "[]" sample_env]
    isRateLimited_six_in_window
    [of 0 newRateLimiter "''203.0.113.7''" "[]"
        "[(sample_invocation 10, sample_request JNull),
           (sample_invocation 20, sample_request JNull),
           (sample_invocation 30, sample_request JNull),
           (sample_invocation 40, sample_request JNull),
           (sample_invocation 50, sample_request JNull),
           (sample_invocation 899999, sample_request JNull)]" sample_env]
  by (simp add: requestTimes_def newRateLimiter_def sample_env_def sample_security_def
      sample_request_def sample_invocation_def)

section \<open>Exceptions\<close>

lemma validate_undefined:
  "validateContactForm l JUndefined
     = Inl (TypeError ''Cannot read properties of undefined (reading 'name')'')"
  by (simp add: validateContactForm_def joi_validate_def validate_object_def sq_def)

lemma sample_body_valid:
  "validateContactForm sample_libs sample_body
   = Inr \<lparr>isValid = True,
          sanitizedData = Some \<lparr>name = ''John Doe'', email = ''john@example.com'',
                                subject = Some ''Test Subject'',
                                message = ''This is a test message.''\<rparr>,
          errors = None\<rparr>"
  by code_simp

lemma sample_content_not_spam:
  "\<not> isSpam ''John Doe Test Subject This is a test message.''"
  by code_simp

lemma sample_not_limited:
  "\<not> fst (isRateLimited t newRateLimiter i)"
  by (simp add: isRateLimited_def validRequests_def requestTimes_def newRateLimiter_def
      maxRequests_def Let_def)

text \<open>
  C8. Whatever exception leaves the \<open>try\<close> block, the handler answers 500 with the code
  \<open>INTERNAL_SERVER_ERROR\<close>, a fixed message, no details and the time stamp: the body does
  not depend on the exception. This is what happens when \<open>validateContactForm\<close> throws and
  when the mail collaborator rejects; in the latter case the collaborator was called
  once. No invocation calls the mail collaborator more than once.
\<close>

theorem handler_catches_every_exception:
  "(let internal =
          \<lparr>status = 500,
           headers = SECURITY_HEADERS (sec env)
                       ++ getCorsHeaders (sec env) (HttpRequest.headers req ''origin'')
                       ++ [''Content-Type'' \<mapsto> ''application/json''],
           body = BodyError
             \<lparr>code = ''INTERNAL_SERVER_ERROR'',
              message = ''An unexpected error occurred. Please try again later.'',
              details = None,
              timestamp = invocation.timestamp ctx\<rparr>\<rparr>;
        limited = fst (isRateLimited (dateNow ctx) rl
                         (getClientIp (sec env) (HttpRequest.headers req)))
    in (fst (try_block env ctx rl req) = Inl e
          \<longrightarrow> fst (contactFormFunction env ctx rl req) = internal)
     \<and> (req_method req = ''POST'' \<and> \<not> limited
          \<and> validateContactForm (libs env) (HttpRequest.body req) = Inl e
          \<longrightarrow> fst (contactFormFunction env ctx rl req) = internal)
     \<and> (req_method req = ''POST'' \<and> \<not> limited
          \<and> validateContactForm (libs env) (HttpRequest.body req) = Inr vr
          \<and> isValid vr \<and> sanitizedData vr = Some formData
          \<and> \<not> isSpam (messageContent formData)
          \<and> sendContactEmail env formData (requestId ctx) = Some e
          \<longrightarrow> fst (contactFormFunction env ctx rl req) = internal
              \<and> filter is_MailSend (snd (snd (contactFormFunction env ctx rl req)))
                  = [MailSend formData (requestId ctx)])
     \<and> length (filter is_MailSend (snd (snd (contactFormFunction env ctx rl req)))) \<le> 1)"
  unfolding Let_def
  by (cases rule: try_block_cases[of req env ctx rl])
     (auto simp: contactFormFunction_def)

theorem handler_catches_every_exception_witness:
  "status (fst (contactFormFunction sample_env (sample_invocation 10) newRateLimiter
                  (sample_request JUndefined))) = 500
   \<and> HttpResponse.body (fst (contactFormFunction failing_mail_env (sample_invocation 10)
                  newRateLimiter (sample_request sample_body)))
       = BodyError
           \<lparr>code = ''INTERNAL_SERVER_ERROR'',
            message = ''An unexpected error occurred. Please try again later.'',
            details = None,
            timestamp = ''2024-01-15T10:30:00.000Z''\<rparr>
   \<and> filter is_MailSend (snd (snd (contactFormFunction failing_mail_env (sample_invocation 10)
                  newRateLimiter (sample_request sample_body))))
       = [MailSend \<lparr>name = ''John Doe'', email = ''john@example.com'',
                    subject = Some ''Test Subject'',
                    message = ''This is a test message.''\<rparr> ''req_1'']"
  using handler_catches_every_exception
    [of sample_env "sample_request JUndefined" "sample_invocation 10" newRateLimiter
        "TypeError ''Cannot read properties of undefined (reading 'name')''"]
    handler_catches_every_exception
    [of failing_mail_env "sample_request sample_body" "sample_invocation 10" newRateLimiter
        "Error ''Failed to send email''"
        "\<lparr>isValid = True,
          sanitizedData = Some \<lparr>name = ''John Doe'', email = ''john@example.com'',
                                subject = Some ''Test Subject'',
                                message = ''This is a test message.''\<rparr>,
          errors = None\<rparr>"
        "\<lparr>name = ''John Doe'', email = ''john@example.com'',
          subject = Some ''Test Subject'', message = ''This is a test message.''\<rparr>"]
    validate_undefined[of sample_libs] sample_body_valid sample_content_not_spam
    sample_not_limited
  by (simp add: Let_def sample_env_def failing_mail_env_def sample_request_def
      sample_invocation_def messageContent_def)

section \<open>Spam\<close>

lemma toLowerCase_append: "toLowerCase (a @ b) = toLowerCase a @ toLowerCase b"
  by (simp add: toLowerCase_def)

lemma keywords_from_here: "keywords_here kws prev ys \<Longrightarrow> keywords_from kws prev ys"
  by (cases ys) simp_all

lemma keywords_from_append:
  "keywords_here kws (if xs = [] then prev else Some (last xs)) ys
     \<Longrightarrow> keywords_from kws prev (xs @ ys)"
proof (induction xs arbitrary: prev)
  case Nil
  then show ?case by (simp add: keywords_from_here)
next
  case (Cons x xs)
  have "keywords_here kws (if xs = [] then Some x else Some (last xs)) ys"
    using Cons.prems by (cases "xs = []") simp_all
  then have "keywords_from kws (Some x) (xs @ ys)"
    by (rule Cons.IH)
  then show ?case by simp
qed

lemma click_here_lower:
  "toLowerCase '' Click here for free money and casino winnings!''
     = '' click here for free money and casino winnings!''"
  by code_simp

lemma click_here_found:
  "keywords_here [''click here'', ''free money'', ''make money fast'', ''work from home'']
     (Some (CHR '' '')) ''click here for free money and casino winnings!''"
  by code_simp

lemma click_here_is_spam:
  "isSpam (xs @ '' Click here for free money and casino winnings!'')"
proof -
  have "keywords_from [''click here'', ''free money'', ''make money fast'', ''work from home'']
          None ((toLowerCase xs @ '' '') @ ''click here for free money and casino winnings!'')"
    by (rule keywords_from_append) (simp add: click_here_found)
  then have "keywords_test [''click here'', ''free money'', ''make money fast'', ''work from home'']
          (toLowerCase (xs @ '' Click here for free money and casino winnings!''))"
    by (simp add: keywords_test_def toLowerCase_append click_here_lower)
  then show ?thesis
    by (simp add: isSpam_def spamPatterns_def Let_def)
qed

lemma spam_body_valid:
  "validateContactForm sample_libs spam_body
   = Inr \<lparr>isValid = True,
          sanitizedData = Some \<lparr>name = ''John Doe'', email = ''john@example.com'',
                                subject = Some ''Test Subject'',
                                message = ''Click here for free money and casino winnings!''\<rparr>,
          errors = None\<rparr>"
  by code_simp

lemma split_spam_body_valid:
  "validateContactForm sample_libs split_spam_body
   = Inr \<lparr>isValid = True,
          sanitizedData = Some \<lparr>name = ''Click'', email = ''john@example.com'',
                                subject = Some ''here'',
                                message = ''This is a test message.''\<rparr>,
          errors = None\<rparr>"
  by code_simp

lemma split_spam_content:
  "isSpam ''Click here This is a test message.''"
  by code_simp

text \<open>
  C5. The content handed to the spam check is the name, the subject (the empty string
  when there is none) and the message of the sanitized submission, joined by single
  spaces. When the submission validates and this content is classified as spam, the
  handler answers 200 with the success body and the headers of an accepted submission,
  and the mail collaborator is not called; an accepted submission gets the same response
  after one call of the collaborator. Every sanitized submission whose message is
  \<open>Click here for free money and casino winnings!\<close> has a content that is classified as
  spam, whatever its name and subject.
\<close>

theorem spam_answered_as_accepted:
  "(let accepted =
          \<lparr>status = 200,
           headers = SECURITY_HEADERS (sec env)
                       ++ getCorsHeaders (sec env) (HttpRequest.headers req ''origin'')
                       ++ [''Content-Type'' \<mapsto> ''application/json''],
           body = BodySuccess
             \<lparr>success = True,
              message = ''Thank you for your message. We will get back to you soon.'',
              response_id = Some (requestId ctx)\<rparr>\<rparr>;
        limited = fst (isRateLimited (dateNow ctx) rl
                         (getClientIp (sec env) (HttpRequest.headers req)));
        content = name formData @ '' ''
                    @ (case subject formData of None \<Rightarrow> [] | Some s \<Rightarrow> s) @ '' ''
                    @ ContactFormRequest.message formData
    in (req_method req = ''POST'' \<and> \<not> limited
          \<and> validateContactForm (libs env) (HttpRequest.body req) = Inr vr
          \<and> isValid vr \<and> sanitizedData vr = Some formData
          \<and> isSpam content
          \<longrightarrow> fst (contactFormFunction env ctx rl req) = accepted
              \<and> filter is_MailSend (snd (snd (contactFormFunction env ctx rl req))) = [])
     \<and> (req_method req = ''POST'' \<and> \<not> limited
          \<and> validateContactForm (libs env) (HttpRequest.body req) = Inr vr
          \<and> isValid vr \<and> sanitizedData vr = Some formData
          \<and> \<not> isSpam content
          \<and> sendContactEmail env formData (requestId ctx) = None
          \<longrightarrow> fst (contactFormFunction env ctx rl req) = accepted
              \<and> filter is_MailSend (snd (snd (contactFormFunction env ctx rl req)))
                  = [MailSend formData (requestId ctx)])
     \<and> (ContactFormRequest.message formData
            = ''Click here for free money and casino winnings!''
          \<longrightarrow> isSpam content))"
proof -
  have spam: "ContactFormRequest.message formData
            = ''Click here for free money and casino winnings!''
          \<Longrightarrow> isSpam (name formData @ '' ''
                    @ (case subject formData of None \<Rightarrow> [] | Some s \<Rightarrow> s) @ '' ''
                    @ ContactFormRequest.message formData)"
    using click_here_is_spam
      [of "name formData @ '' '' @ (case subject formData of None \<Rightarrow> [] | Some s \<Rightarrow> s)"]
    by simp
  show ?thesis
    unfolding Let_def using spam
    by (cases rule: try_block_cases[of req env ctx rl])
       (auto simp: contactFormFunction_def messageContent_def)
qed

theorem spam_answered_as_accepted_witness:
  "status (fst (contactFormFunction sample_env (sample_invocation 10) newRateLimiter
                  (sample_request spam_body))) = 200
   \<and> HttpResponse.body (fst (contactFormFunction sample_env (sample_invocation 10)
                  newRateLimiter (sample_request spam_body)))
       = HttpResponse.body (fst (contactFormFunction sample_env (sample_invocation 10)
                  newRateLimiter (sample_request sample_body)))
   \<and> filter is_MailSend (snd (snd (contactFormFunction sample_env (sample_invocation 10)
                  newRateLimiter (sample_request spam_body)))) = []
   \<and> filter is_MailSend (snd (snd (contactFormFunction sample_env (sample_invocation 10)
                  newRateLimiter (sample_request sample_body))))
       = [MailSend \<lparr>name = ''John Doe'', email = ''john@example.com'',
                    subject = Some ''Test Subject'',
                    message = ''This is a test message.''\<rparr> ''req_1'']
   \<and> isSpam ''John Doe Test Subject Click here for free money and casino winnings!''
   \<and> \<not> isSpam ''This is a test message.''
   \<and> status (fst (contactFormFunction sample_env (sample_invocation 10) newRateLimiter
                  (sample_request split_spam_body))) = 200
   \<and> filter is_MailSend (snd (snd (contactFormFunction sample_env (sample_invocation 10)
                  newRateLimiter (sample_request split_spam_body)))) = []"
proof -
  have plain: "\<not> isSpam ''This is a test message.''"
    by code_simp
  show ?thesis
    using spam_answered_as_accepted
      [where env = sample_env and req = "sample_request spam_body"
          and ctx = "sample_invocation 10" and rl = newRateLimiter
          and vr = "\<lparr>isValid = True,
            sanitizedData = Some \<lparr>name = ''John Doe'', email = ''john@example.com'',
                                  subject = Some ''Test Subject'',
                                  message = ''Click here for free money and casino winnings!''\<rparr>,
            errors = None\<rparr>"
          and formData = "\<lparr>name = ''John Doe'', email = ''john@example.com'',
            subject = Some ''Test Subject'',
            message = ''Click here for free money and casino winnings!''\<rparr>"]
      spam_answered_as_accepted
      [where env = sample_env and req = "sample_request sample_body"
          and ctx = "sample_invocation 10" and rl = newRateLimiter
          and vr = "\<lparr>isValid = True,
            sanitizedData = Some \<lparr>name = ''John Doe'', email = ''john@example.com'',
                                  subject = Some ''Test Subject'',
                                  message = ''This is a test message.''\<rparr>,
            errors = None\<rparr>"
          and formData = "\<lparr>name = ''John Doe'', email = ''john@example.com'',
            subject = Some ''Test Subject'', message = ''This is a test message.''\<rparr>"]
      spam_answered_as_accepted
      [where env = sample_env and req = "sample_request split_spam_body"
          and ctx = "sample_invocation 10" and rl = newRateLimiter
          and vr = "\<lparr>isValid = True,
            sanitizedData = Some \<lparr>name = ''Click'', email = ''john@example.com'',
                                  subject = Some ''here'',
                                  message = ''This is a test message.''\<rparr>,
            errors = None\<rparr>"
          and formData = "\<lparr>name = ''Click'', email = ''john@example.com'',
            subject = Some ''here'', message = ''This is a test message.''\<rparr>"]
      spam_body_valid sample_body_valid split_spam_body_valid sample_content_not_spam
      split_spam_content sample_not_limited plain
    by (simp add: Let_def sample_env_def sample_request_def sample_invocation_def)
qed

section \<open>Validation\<close>

lemma validate_defined_returns:
  assumes "data \<noteq> JUndefined"
  shows "\<exists>vr. validateContactForm l data = Inr vr
           \<and> (if isValid vr then sanitizedData vr \<noteq> None \<and> errors vr = None
               else sanitizedData vr = None \<and> (\<exists>es. errors vr = Some es \<and> es \<noteq> []))"
  using assms
  by (cases data)
     (simp_all add: validateContactForm_def joi_validate_def validate_object_def Let_def)

lemma three_errors:
  assumes "\<not> isEmail l ''bad''"
  shows "validateContactForm l
           (JObj [(''name'', JStr []), (''email'', JStr ''bad''), (''message'', JStr ''short'')])
         = Inr \<lparr>isValid = False, sanitizedData = None,
                errors = Some
                  [\<lparr>field = ''name'', message = ''Name is required''\<rparr>,
                   \<lparr>field = ''email'', message = ''Please provide a valid email address''\<rparr>,
                   \<lparr>field = ''message'',
                     message = ''Message must be at least 10 characters long''\<rparr>]\<rparr>"
  using assms
  by (simp add: validateContactForm_def joi_validate_def validate_object_def
      contactFormSchema_def validate_string_def getProp_def joi_error_def
      trim_def isWhiteSpace_def Let_def)

text \<open>
  C1. \<open>validateContactForm(undefined)\<close> does not return: Joi accepts undefined for an object
  schema that is not \<open>required()\<close>, so \<open>error\<close> is undefined and \<open>value.name\<close> throws a
  TypeError. A POST request without a body that passes the rate limit is therefore
  answered with 500, not with 400 and a list of validation errors.
\<close>

theorem validateContactForm_throws_on_undefined:
  "validateContactForm l JUndefined
     = Inl (TypeError ''Cannot read properties of undefined (reading 'name')'')
   \<and> (req_method req = ''POST'' \<and> HttpRequest.body req = JUndefined
        \<and> \<not> fst (isRateLimited (dateNow ctx) rl
                    (getClientIp (sec env) (HttpRequest.headers req)))
      \<longrightarrow> status (fst (contactFormFunction env ctx rl req)) = 500)"
proof -
  have v: "validateContactForm l' JUndefined
     = Inl (TypeError ''Cannot read properties of undefined (reading 'name')'')" for l'
    by (simp add: validateContactForm_def joi_validate_def validate_object_def sq_def)
  show ?thesis
    using v[of l] v[of "libs env"]
    by (cases rule: try_block_cases[of req env ctx rl])
       (auto simp: contactFormFunction_def)
qed

theorem validateContactForm_throws_on_undefined_witness:
  "validateContactForm sample_libs JUndefined
     = Inl (TypeError ''Cannot read properties of undefined (reading 'name')'')
   \<and> status (fst (contactFormFunction sample_env (sample_invocation 10) newRateLimiter
                    (sample_request JUndefined))) = 500"
  using validateContactForm_throws_on_undefined
    [of sample_libs "sample_request JUndefined" "sample_invocation 10" newRateLimiter
        sample_env]
    sample_not_limited
  by (simp add: sample_request_def)

section \<open>The pattern for several URLs\<close>

text \<open>
  C4. Three URLs separated by spaces are not classified as spam: the group
  \<open>(?:https?:\/\/[^\s]+){3,}\<close> has to match three times in a row, and no round can start
  at the white space that ends the one before. The same three URLs written without
  anything between them are classified as spam.
\<close>

theorem three_separate_urls_not_spam:
  "\<not> isSpam ''See http://a.example.com http://b.example.com http://c.example.com''
   \<and> isSpam ''See http://a.example.comhttp://b.example.comhttp://c.example.com''"
  by code_simp

section \<open>Sanitization of the form fields\<close>

text \<open>
  C6. The form fields are sanitized by \<open>purify.sanitize(value)\<close> with no configuration:
  for a submission that validates, each returned field is DOMPurify's default-profile
  output for the validated value, here for a message that contains an \<open>img\<close> element
  with an \<open>onerror\<close> handler. A name that contains a \<open>script\<close> element never reaches the
  sanitizer: the pattern of the name rejects it.
\<close>

theorem form_fields_sanitized_without_config:
  "(isEmail l ''john@example.com'' \<longrightarrow>
      validateContactForm l img_body
        = Inr \<lparr>isValid = True,
               sanitizedData = Some
                 \<lparr>name = sanitize l None (JStr ''John Doe''),
                  email = sanitize l None (JStr ''john@example.com''),
                  subject = None,
                  message = sanitize l None (JStr ''Hello <img src=x onerror=alert(1)> there'')\<rparr>,
               errors = None\<rparr>
      \<and> validateContactForm l script_name_body
        = Inr \<lparr>isValid = False,
               sanitizedData = None,
               errors = Some [\<lparr>field = ''name'',
                               message = ''Name contains invalid characters''\<rparr>]\<rparr>)"
  by (simp add: validateContactForm_def joi_validate_def validate_object_def
      contactFormSchema_def validate_string_def getProp_def joi_error_def
      trim_def isWhiteSpace_def Let_def img_body_def
      script_name_body_def name_pattern_def name_char_def isAsciiLetter_def
      lowerAtoZ_def upperAtoZ_def sq_def)

theorem form_fields_sanitized_without_config_witness:
  "validateContactForm sample_libs img_body
        = Inr \<lparr>isValid = True,
               sanitizedData = Some
                 \<lparr>name = ''John Doe'',
                  email = ''john@example.com'',
                  subject = None,
                  message = ''Hello <img src='' @ [dq] @ ''x'' @ [dq] @ ''> there''\<rparr>,
               errors = None\<rparr>
   \<and> validateContactForm sample_libs script_name_body
        = Inr \<lparr>isValid = False,
               sanitizedData = None,
               errors = Some [\<lparr>field = ''name'',
                               message = ''Name contains invalid characters''\<rparr>]\<rparr>"
  using form_fields_sanitized_without_config[of sample_libs]
  by (simp add: sample_libs_def sample_sanitize_def)

section \<open>What a sanitized submission satisfies\<close>

lemma map_filter_empty: "List.map_filter f xs = [] \<longleftrightarrow> (\<forall>x\<in>set xs. f x = None)"
  by (induction xs) (auto split: option.splits)

lemma validate_string_no_error:
  assumes "fst (validate_string l sch path v0) = []"
  shows "(v0 = JUndefined \<and> presence sch = Optional
            \<and> snd (validate_string l sch path v0) = JUndefined)
       \<or> (\<exists>s. v0 = JStr s
            \<and> snd (validate_string l sch path v0)
                 = JStr (if list_ex is_trim (rules sch) then trim s else s)
            \<and> ((if list_ex is_trim (rules sch) then trim s else s) \<in> set (allow sch)
                \<or> ((if list_ex is_trim (rules sch) then trim s else s) \<noteq> []
                    \<and> (\<forall>r\<in>set (rules sch).
                          run_rule l r (if list_ex is_trim (rules sch) then trim s else s)
                            = None))))"
  using assms
  by (cases v0; cases "presence sch")
     (auto simp: validate_string_def Let_def map_filter_empty split: if_splits)

lemma trim_trim: "trim (trim s) = trim s"
proof -
  define t where "t = dropWhile isWhiteSpace s"
  define u where "u = rev (dropWhile isWhiteSpace (rev t))"
  have split: "u @ rev (takeWhile isWhiteSpace (rev t)) = t"
  proof -
    have "rev (takeWhile isWhiteSpace (rev t) @ dropWhile isWhiteSpace (rev t)) = rev (rev t)"
      by (simp only: takeWhile_dropWhile_id)
    then have "rev (dropWhile isWhiteSpace (rev t)) @ rev (takeWhile isWhiteSpace (rev t)) = t"
      by (simp only: rev_append rev_rev_ident)
    then show ?thesis by (simp only: u_def)
  qed
  have front: "dropWhile isWhiteSpace u = u"
  proof (cases u)
    case Nil
    then show ?thesis by simp
  next
    case (Cons a as)
    have t: "t = a # as @ rev (takeWhile isWhiteSpace (rev t))"
      using split Cons by simp
    then have "t \<noteq> []" by auto
    then have "\<not> isWhiteSpace (hd t)"
      unfolding t_def by (rule hd_dropWhile)
    moreover have "hd t = a"
      by (subst t) simp
    ultimately show ?thesis using Cons by simp
  qed
  have rear: "dropWhile isWhiteSpace (rev u) = rev u"
    by (simp add: u_def)
  have "trim u = u"
    by (simp add: trim_def front rear)
  then show ?thesis by (simp add: trim_def u_def t_def)
qed

lemma validated_fields:
  assumes "joi_validate l contactFormSchema data = (None, v)" and "data \<noteq> JUndefined"
  shows "\<exists>kvs n e m.
           data = JObj kvs
         \<and> getProp kvs ''name'' = JStr n \<and> getProp kvs ''email'' = JStr e
         \<and> getProp kvs ''message'' = JStr m
         \<and> trim n \<noteq> [] \<and> length (trim n) \<le> 100 \<and> name_pattern (trim n)
         \<and> isEmail l e \<and> length e \<le> 254
         \<and> 10 \<le> length (trim m) \<and> length (trim m) \<le> 5000
         \<and> getMember v ''name'' = Inr (JStr (trim n))
         \<and> getMember v ''email'' = Inr (JStr e)
         \<and> getMember v ''message'' = Inr (JStr (trim m))
         \<and> ((getProp kvs ''subject'' = JUndefined \<and> getMember v ''subject'' = Inr JUndefined)
            \<or> (\<exists>sj. getProp kvs ''subject'' = JStr sj \<and> length (trim sj) \<le> 200
                  \<and> getMember v ''subject'' = Inr (JStr (trim sj))))"
proof -
  obtain kvs where data: "data = JObj kvs"
    using assms by (cases data) (simp_all add: joi_validate_def validate_object_def)
  define sn where "sn = snd (contactFormSchema ! 0)"
  define se where "se = snd (contactFormSchema ! 1)"
  define ss where "ss = snd (contactFormSchema ! 2)"
  define sm where "sm = snd (contactFormSchema ! 3)"
  have schema: "contactFormSchema = [(''name'', sn), (''email'', se), (''subject'', ss), (''message'', sm)]"
    by (simp add: contactFormSchema_def sn_def se_def ss_def sm_def)
  have sn: "rules sn = [RuleTrim, RuleMin 1, RuleMax 100, RulePattern name_pattern]"
      "presence sn = Required" "allow sn = []"
    by (simp_all add: contactFormSchema_def sn_def)
  have se: "rules se = [RuleEmail, RuleMax 254]" "presence se = Required" "allow se = []"
    by (simp_all add: contactFormSchema_def se_def)
  have ss: "rules ss = [RuleTrim, RuleMax 200]" "presence ss = Optional" "allow ss = [[]]"
    by (simp_all add: contactFormSchema_def ss_def)
  have sm: "rules sm = [RuleTrim, RuleMin 10, RuleMax 5000]" "presence sm = Required"
      "allow sm = []"
    by (simp_all add: contactFormSchema_def sm_def)
  define rn where "rn = validate_string l sn [''name''] (getProp kvs ''name'')"
  define re where "re = validate_string l se [''email''] (getProp kvs ''email'')"
  define rs where "rs = validate_string l ss [''subject''] (getProp kvs ''subject'')"
  define rm where "rm = validate_string l sm [''message''] (getProp kvs ''message'')"
  have obj: "validate_object l contactFormSchema data
      = (fst rn @ fst re @ fst rs @ fst rm,
         JObj (filter (\<lambda>(k, v). v \<noteq> JUndefined)
           [(''name'', snd rn), (''email'', snd re), (''subject'', snd rs), (''message'', snd rm)]))"
    unfolding schema data by (simp add: validate_object_def Let_def rn_def re_def rs_def rm_def)
  have none: "fst rn = []" "fst re = []" "fst rs = []" "fst rm = []"
    and v: "v = JObj (filter (\<lambda>(k, v). v \<noteq> JUndefined)
           [(''name'', snd rn), (''email'', snd re), (''subject'', snd rs), (''message'', snd rm)])"
    using assms(1) obj by (auto simp: joi_validate_def split: if_splits)
  obtain n where n: "getProp kvs ''name'' = JStr n" "snd rn = JStr (trim n)"
      "trim n \<noteq> []" "length (trim n) \<le> 100" "name_pattern (trim n)"
    using validate_string_no_error[OF none(1)[unfolded rn_def]] sn
    by (auto simp: rn_def split: if_splits)
  obtain e where e: "getProp kvs ''email'' = JStr e" "snd re = JStr e"
      "isEmail l e" "length e \<le> 254"
    using validate_string_no_error[OF none(2)[unfolded re_def]] se
    by (auto simp: re_def split: if_splits)
  obtain m where m: "getProp kvs ''message'' = JStr m" "snd rm = JStr (trim m)"
      "10 \<le> length (trim m)" "length (trim m) \<le> 5000"
    using validate_string_no_error[OF none(4)[unfolded rm_def]] sm
    by (auto simp: rm_def split: if_splits)
  have s: "(getProp kvs ''subject'' = JUndefined \<and> snd rs = JUndefined)
         \<or> (\<exists>sj. getProp kvs ''subject'' = JStr sj \<and> length (trim sj) \<le> 200
               \<and> snd rs = JStr (trim sj))"
    using validate_string_no_error[OF none(3)[unfolded rs_def]] ss
    by (auto simp: rs_def split: if_splits)
  show ?thesis
    using data n e m s unfolding v
    by (auto simp: getProp_def)
qed

text \<open>
  C2 as the specification states it fails: the sanitizer runs after the schema and its
  output is not checked again. A message that is one script element passes the schema
  with 25 characters and is returned as the empty string.
\<close>

theorem sanitized_message_too_short:
  "validateContactForm sample_libs script_body
     = Inr \<lparr>isValid = True,
            sanitizedData = Some \<lparr>name = ''John Doe'', email = ''john@example.com'',
                                  subject = None, message = []\<rparr>,
            errors = None\<rparr>
   \<and> \<not> schema_constraints sample_libs
         \<lparr>name = ''John Doe'', email = ''john@example.com'', subject = None, message = []\<rparr>"
  by code_simp

text \<open>
  C2, amended. Whenever \<open>validateContactForm\<close> returns a sanitized submission, the result
  is valid and has no errors, the input was an object whose name, email and message are
  strings, the converted values (name, subject and message trimmed; the subject absent
  when it is missing or empty) satisfy the constraints of the schema, and each returned
  field is \<open>purify.sanitize\<close>, called without configuration, of the converted value.
\<close>

theorem sanitized_from_validated:
  "validateContactForm l data = Inr vr \<and> sanitizedData vr = Some formData \<longrightarrow>
     isValid vr \<and> errors vr = None
     \<and> (\<exists>kvs n e m.
           data = JObj kvs
         \<and> getProp kvs ''name'' = JStr n \<and> getProp kvs ''email'' = JStr e
         \<and> getProp kvs ''message'' = JStr m
         \<and> (getProp kvs ''subject'' = JUndefined
             \<or> (\<exists>sj. getProp kvs ''subject'' = JStr sj))
         \<and> (let converted =
                   \<lparr>name = trim n,
                    email = e,
                    subject = (case getProp kvs ''subject'' of
                                 JStr sj \<Rightarrow> if trim sj = [] then None else Some (trim sj)
                               | _ \<Rightarrow> None),
                    message = trim m\<rparr>
            in schema_constraints l converted
             \<and> formData =
                 \<lparr>name = sanitize l None (JStr (name converted)),
                  email = sanitize l None (JStr (email converted)),
                  subject = map_option (\<lambda>s. sanitize l None (JStr s)) (subject converted),
                  message = sanitize l None (JStr (ContactFormRequest.message converted))\<rparr>))"
proof (intro impI)
  assume a: "validateContactForm l data = Inr vr \<and> sanitizedData vr = Some formData"
  obtain err v where j: "joi_validate l contactFormSchema data = (err, v)"
    by (cases "joi_validate l contactFormSchema data")
  have err: "err = None"
    using a j by (cases err) (auto simp: validateContactForm_def)
  have defined: "data \<noteq> JUndefined"
    using a by (auto simp: validateContactForm_def joi_validate_def validate_object_def sq_def)
  from validated_fields[OF j[unfolded err] defined]
  obtain kvs n e m where f:
    "data = JObj kvs" "getProp kvs ''name'' = JStr n" "getProp kvs ''email'' = JStr e"
    "getProp kvs ''message'' = JStr m"
    "trim n \<noteq> []" "length (trim n) \<le> 100" "name_pattern (trim n)"
    "isEmail l e" "length e \<le> 254"
    "10 \<le> length (trim m)" "length (trim m) \<le> 5000"
    "getMember v ''name'' = Inr (JStr (trim n))"
    "getMember v ''email'' = Inr (JStr e)"
    "getMember v ''message'' = Inr (JStr (trim m))"
    and s: "(getProp kvs ''subject'' = JUndefined \<and> getMember v ''subject'' = Inr JUndefined)
            \<or> (\<exists>sj. getProp kvs ''subject'' = JStr sj \<and> length (trim sj) \<le> 200
                  \<and> getMember v ''subject'' = Inr (JStr (trim sj)))"
    by blast
  have one: "1 \<le> length (trim n)"
    using f(5) by (cases "trim n") simp_all
  from s show "isValid vr \<and> errors vr = None
     \<and> (\<exists>kvs n e m.
           data = JObj kvs
         \<and> getProp kvs ''name'' = JStr n \<and> getProp kvs ''email'' = JStr e
         \<and> getProp kvs ''message'' = JStr m
         \<and> (getProp kvs ''subject'' = JUndefined
             \<or> (\<exists>sj. getProp kvs ''subject'' = JStr sj))
         \<and> (let converted =
                   \<lparr>name = trim n,
                    email = e,
                    subject = (case getProp kvs ''subject'' of
                                 JStr sj \<Rightarrow> if trim sj = [] then None else Some (trim sj)
                               | _ \<Rightarrow> None),
                    message = trim m\<rparr>
            in schema_constraints l converted
             \<and> formData =
                 \<lparr>name = sanitize l None (JStr (name converted)),
                  email = sanitize l None (JStr (email converted)),
                  subject = map_option (\<lambda>s. sanitize l None (JStr s)) (subject converted),
                  message = sanitize l None (JStr (ContactFormRequest.message converted))\<rparr>))"
  proof
    assume u: "getProp kvs ''subject'' = JUndefined \<and> getMember v ''subject'' = Inr JUndefined"
    have r: "vr = \<lparr>isValid = True,
                sanitizedData = Some
                  \<lparr>name = sanitize l None (JStr (trim n)),
                   email = sanitize l None (JStr e),
                   subject = None,
                   message = sanitize l None (JStr (trim m))\<rparr>,
                errors = None\<rparr>"
      using a j err f(12-14) u by (simp add: validateContactForm_def)
    show ?thesis
      using a r f(1-4) u f(5-11) one
      by (auto simp: schema_constraints_def trim_trim Let_def)
  next
    assume "\<exists>sj. getProp kvs ''subject'' = JStr sj \<and> length (trim sj) \<le> 200
                  \<and> getMember v ''subject'' = Inr (JStr (trim sj))"
    then obtain sj where u: "getProp kvs ''subject'' = JStr sj" "length (trim sj) \<le> 200"
        "getMember v ''subject'' = Inr (JStr (trim sj))"
      by blast
    have r: "vr = \<lparr>isValid = True,
                sanitizedData = Some
                  \<lparr>name = sanitize l None (JStr (trim n)),
                   email = sanitize l None (JStr e),
                   subject = (if trim sj \<noteq> [] then Some (sanitize l None (JStr (trim sj)))
                              else None),
                   message = sanitize l None (JStr (trim m))\<rparr>,
                errors = None\<rparr>"
      using a j err f(12-14) u(3) by (simp add: validateContactForm_def)
    show ?thesis
      using a r f(1-4) u(1,2) f(5-11) one
      by (auto simp: schema_constraints_def trim_trim Let_def)
  qed
qed

theorem sanitized_from_validated_witness:
  "validateContactForm sample_libs script_body
     = Inr \<lparr>isValid = True,
            sanitizedData = Some \<lparr>name = ''John Doe'', email = ''john@example.com'',
                                  subject = None, message = []\<rparr>,
            errors = None\<rparr>
   \<and> schema_constraints sample_libs
        \<lparr>name = ''John Doe'', email = ''john@example.com'', subject = None,
         message = ''<script>alert(1)</script>''\<rparr>
   \<and> sample_sanitize None (JStr ''<script>alert(1)</script>'') = []"
proof -
  have v: "validateContactForm sample_libs script_body
     = Inr \<lparr>isValid = True,
            sanitizedData = Some \<lparr>name = ''John Doe'', email = ''john@example.com'',
                                  subject = None, message = []\<rparr>,
            errors = None\<rparr>"
    by code_simp
  have t: "trim ''John Doe'' = ''John Doe''"
      "trim ''<script>alert(1)</script>'' = ''<script>alert(1)</script>''"
    by code_simp+
  show ?thesis
    using sanitized_from_validated
      [of sample_libs script_body
          "\<lparr>isValid = True,
            sanitizedData = Some \<lparr>name = ''John Doe'', email = ''john@example.com'',
                                  subject = None, message = []\<rparr>,
            errors = None\<rparr>"
          "\<lparr>name = ''John Doe'', email = ''john@example.com'',
            subject = None, message = []\<rparr>"]
      v t
    by (auto simp: script_body_def getProp_def Let_def sample_libs_def)
qed

end
